theory Spec2Isabelle
  imports Main "HOL-Library.Sublist"
begin

section \<open>The config checker (ci/config_checker.py)\<close>

text \<open>
  The script loads a service config (YAML), a service schema (JSON), any number of mirror
  configs (YAML) and an optional mirror schema (JSON) while \<^verbatim>\<open>argparse\<close> parses the command
  line, validates with \<^verbatim>\<open>jsonschema.validate\<close>, logs through \<^verbatim>\<open>logging\<close> and leaves
  through \<^verbatim>\<open>exit\<close>. The libraries are not part of the script: what they return is a field of
  the environment \<open>env\<close> below, and the script is a function of that environment.
\<close>

subsection \<open>Data\<close>

text \<open>
  What \<^verbatim>\<open>yaml.safe_load\<close> and \<^verbatim>\<open>json.load\<close> return. The script never looks inside such
  a value, it only hands it to the validator. Floats are left out; \<open>PNone\<close> is Python's
  \<^verbatim>\<open>None\<close>.
\<close>

datatype pyval =
    PNone
  | PBool bool
  | PInt int
  | PStr string
  | PList "pyval list"
  | PDict "(string \<times> pyval) list"

text \<open>An open file: the two things the loaders use of it.\<close>

record file_stream =
  fs_name :: string
  fs_content :: string

text \<open>The dict \<^verbatim>\<open>{'config_path': ..., 'config_data': ...}\<close> that \<^verbatim>\<open>YamlFileType\<close> returns.\<close>

record config =
  config_path :: string
  config_data :: pyval

text \<open>
  The namespace \<^verbatim>\<open>arguments\<close>, with the \<^verbatim>\<open>dest\<close> names of \<^verbatim>\<open>create_parser\<close>. The mirror
  schema is \<open>PNone\<close> when \<^verbatim>\<open>-ms\<close> is absent (the default of argparse).
\<close>

record arguments =
  service_config :: config
  service_config_json_schema :: pyval
  mirror_configs :: "config list"
  mirror_config_json_schema :: pyval

text \<open>
  The three ways \<^verbatim>\<open>jsonschema.validate(instance, schema)\<close> ends: it returns, it raises
  \<^verbatim>\<open>ValidationError\<close> (the string is \<^verbatim>\<open>str(err)\<close>), or it raises something that is not a
  \<^verbatim>\<open>ValidationError\<close>; the library documents \<^verbatim>\<open>SchemaError\<close>, for a schema that is itself
  invalid.
\<close>

datatype validate_outcome =
    Valid
  | ValidationError string
  | SchemaError string

datatype level = INFO | ERROR

text \<open>
  A log record, with the four fields of the format
  \<^verbatim>\<open>%(asctime)s | %(name)s | %(levelname)s | %(message)s\<close>.
\<close>

record log_record =
  asctime :: string
  name :: string
  levelname :: level
  message :: string

text \<open>
  The exceptions that can leave a type function of argparse, by what argparse does with
  them: \<^verbatim>\<open>ArgumentTypeError\<close> with its message; a \<^verbatim>\<open>TypeError\<close> or \<^verbatim>\<open>ValueError\<close> (so also
  \<^verbatim>\<open>UnicodeDecodeError\<close>); any other exception (\<^verbatim>\<open>RecursionError\<close>, for one).
\<close>

datatype exn =
    ArgumentTypeError string
  | ValueError string
  | OtherException string

text \<open>
  How a call of \<^verbatim>\<open>yaml.safe_load\<close> or \<^verbatim>\<open>json.load\<close> on an open file ends: with the parsed
  value; with the error of the parser itself, \<^verbatim>\<open>yaml.YAMLError\<close> or \<^verbatim>\<open>json.JSONDecodeError\<close>
  (the string is \<^verbatim>\<open>str(err)\<close>); or with another exception, raised while the file is read
  or parsed.
\<close>

datatype parsed =
    Parsed pyval
  | ParserError string
  | Raises exn

text \<open>
  The environment of one run.
  \<^item> \<open>file_open\<close> is \<^verbatim>\<open>argparse.FileType('r').__call__\<close>: the open stream, or (\<open>Inl\<close>) the
    exception it raises, an \<^verbatim>\<open>ArgumentTypeError\<close> when the file cannot be opened;
  \<^item> \<open>yaml_safe_load\<close> and \<open>json_load\<close> are the two parsers on the content of a stream;
  \<^item> \<open>py_repr\<close> is \<^verbatim>\<open>repr\<close> on a string, as \<^verbatim>\<open>%r\<close> formats it;
  \<^item> \<open>jsonschema_validate\<close> is the validator;
  \<^item> \<open>clock n\<close> is the \<^verbatim>\<open>asctime\<close> that the logging module stamps on the record emitted
    after \<open>n\<close> earlier ones.
\<close>

record env =
  file_open :: "string \<Rightarrow> exn + file_stream"
  yaml_safe_load :: "string \<Rightarrow> parsed"
  json_load :: "string \<Rightarrow> parsed"
  py_repr :: "string \<Rightarrow> string"
  jsonschema_validate :: "pyval \<Rightarrow> pyval \<Rightarrow> validate_outcome"
  clock :: "nat \<Rightarrow> string"

text \<open>
  What a run leaves behind: the records the logger emitted, in order, and the calls of
  \<^verbatim>\<open>jsonschema.validate\<close> it made, each as the pair (instance, schema).
\<close>

record state =
  log :: "log_record list"
  validated :: "(pyval \<times> pyval) list"

text \<open>
  How the process ends: \<^verbatim>\<open>exit(n)\<close>; the error exit of argparse (the usage text and the
  message on stderr, status 2); or an exception nobody catches (a traceback, status 1).
\<close>

datatype outcome =
    SystemExit int
  | ArgumentError string
  | Uncaught string

fun exit_status :: "outcome \<Rightarrow> int" where
  "exit_status (SystemExit n) = n"
| "exit_status (ArgumentError msg) = 2"
| "exit_status (Uncaught e) = 1"

subsection \<open>The loaders\<close>

text \<open>
  Both loaders return the parsed value or raise; \<open>Inl\<close> carries the exception. Each has one
  handler, for the error of its parser, which it turns into an \<^verbatim>\<open>ArgumentTypeError\<close>. An
  exception of \<open>file_open\<close> and any other exception of the parser pass through unchanged.
\<close>

definition YamlFileType :: "env \<Rightarrow> string \<Rightarrow> exn + config" where
  \<open>YamlFileType e string =
     (case file_open e string of
        Inl x \<Rightarrow> Inl x
      | Inr file_stream \<Rightarrow>
          (case yaml_safe_load e (fs_content file_stream) of
             Parsed data \<Rightarrow> Inr \<lparr>config_path = fs_name file_stream, config_data = data\<rparr>
           | ParserError err \<Rightarrow>
               Inl (ArgumentTypeError
                     (''The YAML file by path "'' @ fs_name file_stream @
                      ''" is invalid because "'' @ err @ ''"''))
           | Raises x \<Rightarrow> Inl x))\<close>

definition JsonFileType :: "env \<Rightarrow> string \<Rightarrow> exn + pyval" where
  \<open>JsonFileType e string =
     (case file_open e string of
        Inl x \<Rightarrow> Inl x
      | Inr file_stream \<Rightarrow>
          (case json_load e (fs_content file_stream) of
             Parsed data \<Rightarrow> Inr data
           | ParserError err \<Rightarrow>
               Inl (ArgumentTypeError
                     (''The JSON file by path "'' @ fs_name file_stream @
                      ''" is invalid because "'' @ err @ ''"''))
           | Raises x \<Rightarrow> Inl x))\<close>

subsection \<open>Argument parsing\<close>

text \<open>
  The command line as argparse sees it once it has split it into options: the occurrences
  of the four options of \<^verbatim>\<open>create_parser\<close>, in the order given, each with its raw strings.
\<close>

datatype cli_arg =
    SC string
  | SS string
  | MC "string list"
  | MS string

text \<open>
  The namespace while parsing. A required option that has not occurred yet is \<open>None\<close>;
  \<^verbatim>\<open>mirror_configs\<close> starts as \<^verbatim>\<open>[]\<close> and the mirror schema as \<^verbatim>\<open>None\<close>.
\<close>

record namespace =
  ns_service_config :: "config option"
  ns_service_config_json_schema :: "pyval option"
  ns_mirror_configs :: "config list"
  ns_mirror_config_json_schema :: pyval

definition default_namespace :: namespace where
  "default_namespace =
     \<lparr>ns_service_config = None, ns_service_config_json_schema = None,
      ns_mirror_configs = [], ns_mirror_config_json_schema = PNone\<rparr>"

text \<open>
  The conversion of one string by the \<^verbatim>\<open>type\<close> of an option, as argparse does it. An
  \<^verbatim>\<open>ArgumentTypeError\<close> becomes the error of the parser with the message of the exception; a
  \<^verbatim>\<open>TypeError\<close> or \<^verbatim>\<open>ValueError\<close> becomes the error of the parser with the text
  \<^verbatim>\<open>invalid <type> value: <repr of the string>\<close>; both are prefixed with the name of the
  option. Any other exception is not caught and ends the process. \<open>option_name\<close> is the
  name of the option in messages and \<open>type_name\<close> the \<^verbatim>\<open>repr\<close> of its \<^verbatim>\<open>type\<close>.
\<close>

definition get_value ::
  "env \<Rightarrow> string \<Rightarrow> string \<Rightarrow> (string \<Rightarrow> exn + 'a) \<Rightarrow> string \<Rightarrow> outcome + 'a" where
  "get_value e option_name type_name type_func arg_string =
     (case type_func arg_string of
        Inr result \<Rightarrow> Inr result
      | Inl (ArgumentTypeError msg) \<Rightarrow>
          Inl (ArgumentError (''argument '' @ option_name @ '': '' @ msg))
      | Inl (ValueError x) \<Rightarrow>
          Inl (ArgumentError
                (''argument '' @ option_name @ '': invalid '' @ type_name @ '' value: '' @
                 py_repr e arg_string))
      | Inl (OtherException x) \<Rightarrow> Inl (Uncaught x))"

text \<open>
  \<^verbatim>\<open>nargs='+'\<close> of \<^verbatim>\<open>-mc\<close>: the type function is applied to the strings from left to
  right.
\<close>

fun load_all :: "env \<Rightarrow> string list \<Rightarrow> outcome + config list" where
  "load_all e [] = Inr []"
| "load_all e (s # ss) =
     (case get_value e ''-mc/--mirror-configs'' ''YamlFileType('r')'' (YamlFileType e) s of
        Inl out \<Rightarrow> Inl out
      | Inr c \<Rightarrow> (case load_all e ss of Inl out \<Rightarrow> Inl out | Inr cs \<Rightarrow> Inr (c # cs)))"

text \<open>
  One occurrence: argparse converts its strings with the option's \<^verbatim>\<open>type\<close> and stores the
  result under \<^verbatim>\<open>dest\<close>.
\<close>

fun take_action :: "env \<Rightarrow> cli_arg \<Rightarrow> namespace \<Rightarrow> outcome + namespace" where
  "take_action e (SC s) ns =
     (case get_value e ''-sc/--service-config'' ''YamlFileType('r')'' (YamlFileType e) s of
        Inl out \<Rightarrow> Inl out
      | Inr c \<Rightarrow> Inr (ns\<lparr>ns_service_config := Some c\<rparr>))"
| "take_action e (SS s) ns =
     (case get_value e ''-ss/--service-config-json-schema'' ''JsonFileType('r')''
             (JsonFileType e) s of
        Inl out \<Rightarrow> Inl out
      | Inr d \<Rightarrow> Inr (ns\<lparr>ns_service_config_json_schema := Some d\<rparr>))"
| "take_action e (MC ss) ns =
     (if ss = [] then
        Inl (ArgumentError ''argument -mc/--mirror-configs: expected at least one argument'')
      else case load_all e ss of
        Inl out \<Rightarrow> Inl out
      | Inr cs \<Rightarrow> Inr (ns\<lparr>ns_mirror_configs := cs\<rparr>))"
| "take_action e (MS s) ns =
     (case get_value e ''-ms/--mirror-config-json-schema'' ''JsonFileType('r')''
             (JsonFileType e) s of
        Inl out \<Rightarrow> Inl out
      | Inr d \<Rightarrow> Inr (ns\<lparr>ns_mirror_config_json_schema := d\<rparr>))"

fun parse_loop :: "env \<Rightarrow> cli_arg list \<Rightarrow> namespace \<Rightarrow> outcome + namespace" where
  "parse_loop e [] ns = Inr ns"
| "parse_loop e (a # as) ns =
     (case take_action e a ns of Inl out \<Rightarrow> Inl out | Inr ns' \<Rightarrow> parse_loop e as ns')"

text \<open>After the last occurrence argparse checks the two options declared \<^verbatim>\<open>required\<close>.\<close>

definition check_required :: "namespace \<Rightarrow> outcome + arguments" where
  "check_required ns =
     (case (ns_service_config ns, ns_service_config_json_schema ns) of
        (Some c, Some d) \<Rightarrow>
          Inr \<lparr>service_config = c, service_config_json_schema = d,
               mirror_configs = ns_mirror_configs ns,
               mirror_config_json_schema = ns_mirror_config_json_schema ns\<rparr>
      | (None, Some d) \<Rightarrow>
          Inl (ArgumentError ''the following arguments are required: -sc/--service-config'')
      | (Some c, None) \<Rightarrow>
          Inl (ArgumentError
                ''the following arguments are required: -ss/--service-config-json-schema'')
      | (None, None) \<Rightarrow>
          Inl (ArgumentError
                (''the following arguments are required: -sc/--service-config, '' @
                 ''-ss/--service-config-json-schema'')))"

text \<open>
  \<^verbatim>\<open>parse_args\<close>: the namespace, or (\<open>Inl\<close>) how the process ends while the arguments are
  parsed.
\<close>

definition parse_args :: "env \<Rightarrow> cli_arg list \<Rightarrow> outcome + arguments" where
  "parse_args e argv =
     (case parse_loop e argv default_namespace of
        Inl out \<Rightarrow> Inl out
      | Inr ns \<Rightarrow> check_required ns)"

text \<open>Every file that an occurrence names loads.\<close>

fun arg_loads :: "env \<Rightarrow> cli_arg \<Rightarrow> bool" where
  "arg_loads e (SC s) = (\<not> isl (YamlFileType e s))"
| "arg_loads e (SS s) = (\<not> isl (JsonFileType e s))"
| "arg_loads e (MC ss) = list_all (\<lambda>s. \<not> isl (YamlFileType e s)) ss"
| "arg_loads e (MS s) = (\<not> isl (JsonFileType e s))"

subsection \<open>Logging\<close>

definition init_state :: state where
  "init_state = \<lparr>log = [], validated = []\<rparr>"

text \<open>The logger is \<^verbatim>\<open>logging.getLogger(__name__)\<close> of a module run as a script.\<close>

definition emit :: "env \<Rightarrow> level \<Rightarrow> string \<Rightarrow> state \<Rightarrow> state" where
  "emit e lvl msg st =
     st\<lparr>log := log st @
       [\<lparr>asctime = clock e (length (log st)), name = ''__main__'',
         levelname = lvl, message = msg\<rparr>]\<rparr>"

definition logger_error :: "env \<Rightarrow> string \<Rightarrow> state \<Rightarrow> state" where
  "logger_error e msg st = emit e ERROR msg st"

definition logger_info :: "env \<Rightarrow> string \<Rightarrow> state \<Rightarrow> state" where
  "logger_info e msg st = emit e INFO msg st"

fun level_string :: "level \<Rightarrow> string" where
  "level_string INFO = ''INFO''"
| "level_string ERROR = ''ERROR''"

text \<open>The line the handler writes for a record.\<close>

definition format_record :: "log_record \<Rightarrow> string" where
  "format_record r =
     asctime r @ '' | '' @ name r @ '' | '' @ level_string (levelname r) @ '' | '' @ message r"

text \<open>\<^verbatim>\<open>'%s' % err\<close> for the \<^verbatim>\<open>Optional[str]\<close> that \<^verbatim>\<open>config_validation\<close> returns.\<close>

fun percent_s :: "string option \<Rightarrow> string" where
  "percent_s None = ''None''"
| "percent_s (Some s) = s"

subsection \<open>Validation and the main function\<close>

text \<open>
  \<^verbatim>\<open>config_validation\<close> catches \<^verbatim>\<open>jsonschema.ValidationError\<close> and nothing else: \<open>Inl\<close> is an
  exception that leaves the function.
\<close>

definition config_validation :: "env \<Rightarrow> pyval \<Rightarrow> pyval \<Rightarrow> string + (bool \<times> string option)" where
  "config_validation e config_data' json_schema =
     (case jsonschema_validate e config_data' json_schema of
        Valid \<Rightarrow> Inr (True, None)
      | ValidationError err \<Rightarrow> Inr (False, Some err)
      | SchemaError x \<Rightarrow> Inl x)"

definition call_validate :: "pyval \<Rightarrow> pyval \<Rightarrow> state \<Rightarrow> state" where
  "call_validate d s st = st\<lparr>validated := validated st @ [(d, s)]\<rparr>"

text \<open>
  The \<^verbatim>\<open>for\<close> loop of \<^verbatim>\<open>main\<close>, from the mirror configs still to visit, the current
  \<^verbatim>\<open>exit_code\<close> and the state. Each iteration calls \<^verbatim>\<open>config_validation\<close> with the data of
  \<^verbatim>\<open>arguments.service_config\<close> and with \<^verbatim>\<open>arguments.service_config_json_schema\<close>, as the
  source does; \<open>mirror_config\<close> is used for the path in the error line only. \<open>Inl\<close> is an
  exception that leaves the loop.
\<close>

fun mirror_loop ::
  "env \<Rightarrow> arguments \<Rightarrow> config list \<Rightarrow> int \<times> state \<Rightarrow> string \<times> state + int \<times> state" where
  \<open>mirror_loop e args [] (exit_code, st) = Inr (exit_code, st)\<close>
| \<open>mirror_loop e args (mirror_config # rest) (exit_code, st) =
     (let st1 = call_validate (config_data (service_config args))
                  (service_config_json_schema args) st
      in case config_validation e (config_data (service_config args))
                (service_config_json_schema args) of
           Inl x \<Rightarrow> Inl (x, st1)
         | Inr (is_validity, err) \<Rightarrow>
             if \<not> is_validity then
               mirror_loop e args rest
                 (1, logger_error e
                       (''The mirror config "'' @ config_path mirror_config @
                        ''" is invalid because "'' @ percent_s err @ ''"'') st1)
             else mirror_loop e args rest (exit_code, st1))\<close>

text \<open>
  \<^verbatim>\<open>main\<close>, from the start of the process. The source reads the global \<^verbatim>\<open>arguments\<close>, which
  is the namespace it is called with.
\<close>

definition main :: "env \<Rightarrow> arguments \<Rightarrow> outcome \<times> state" where
  \<open>main e args =
     (let st1 = call_validate (config_data (service_config args))
                  (service_config_json_schema args) init_state
      in case config_validation e (config_data (service_config args))
                (service_config_json_schema args) of
           Inl x \<Rightarrow> (Uncaught x, st1)
         | Inr (is_validity, err) \<Rightarrow>
             if \<not> is_validity then
               (SystemExit 1,
                logger_error e
                  (''Main config "'' @ config_path (service_config args) @
                   ''" is invalid because "'' @ percent_s err @ ''"'') st1)
             else
               (case mirror_loop e args (mirror_configs args) (0, st1) of
                  Inl (x, st2) \<Rightarrow> (Uncaught x, st2)
                | Inr (exit_code, st2) \<Rightarrow>
                    (SystemExit exit_code,
                     if exit_code = 0 then logger_info e ''All configs are valid'' st2
                     else st2)))\<close>

text \<open>The script: \<^verbatim>\<open>arguments = create_parser().parse_args(); main(arguments)\<close>.\<close>

definition script :: "env \<Rightarrow> cli_arg list \<Rightarrow> outcome \<times> state" where
  "script e argv =
     (case parse_args e argv of
        Inl out \<Rightarrow> (out, init_state)
      | Inr args \<Rightarrow> main e args)"

subsection \<open>Reading a run\<close>

text \<open>The success line of \<^verbatim>\<open>main\<close>, counted in the log of a run.\<close>

definition success_lines :: "state \<Rightarrow> nat" where
  "success_lines st =
     length (filter (\<lambda>r. levelname r = INFO \<and> message r = ''All configs are valid'') (log st))"

text \<open>No call of the validator that the run made has failed.\<close>

definition no_validation_failure :: "env \<Rightarrow> state \<Rightarrow> bool" where
  "no_validation_failure e st =
     list_all (\<lambda>(d, s). jsonschema_validate e d s = Valid) (validated st)"

text \<open>A log without the time stamps: logger, level and message of each record.\<close>

definition untimed :: "log_record list \<Rightarrow> (string \<times> level \<times> string) list" where
  "untimed rs = map (\<lambda>r. (name r, levelname r, message r)) rs"

text \<open>
  The error records of a mirror loop in which every iteration fails with the text \<open>err\<close>,
  the first of them emitted after \<open>n\<close> earlier records.
\<close>

fun mirror_errors :: "env \<Rightarrow> string \<Rightarrow> nat \<Rightarrow> config list \<Rightarrow> log_record list" where
  \<open>mirror_errors e err n [] = []\<close>
| \<open>mirror_errors e err n (m # ms) =
     \<lparr>asctime = clock e n, name = ''__main__'', levelname = ERROR,
      message = ''The mirror config "'' @ config_path m @
                ''" is invalid because "'' @ err @ ''"''\<rparr> # mirror_errors e err (Suc n) ms\<close>

subsection \<open>An environment for concrete runs\<close>

text \<open>
  A small file system, the two parsers as tables on the contents of its files, and a
  validator that knows the keyword \<^verbatim>\<open>required\<close> only: an instance that is a mapping must
  have every listed key, and a \<^verbatim>\<open>required\<close> that is not a list of strings makes the schema
  invalid. The JSON parser ends with \<^verbatim>\<open>RecursionError\<close> on 1500 or more opening brackets
  and nothing else, and with \<^verbatim>\<open>UnicodeDecodeError\<close> on the file whose bytes are not UTF-8.
  The concrete runs below are evaluated in this environment.
\<close>

definition example_files :: "(string \<times> string) list" where
  \<open>example_files =
     [(''config.yml'', ''name: service''),
      (''unnamed.yml'', ''title: service''),
      (''broken.yml'', ''name: [''),
      (''schema.json'', ''{"required": ["name"]}''),
      (''broken.json'', ''{"required": ''),
      (''invalid_schema.json'', ''{"required": 5}''),
      (''deep.json'', replicate 1500 (CHR ''['')),
      (''latin1.json'', ''{"required": ["'' @ [CHR 0xE9] @ ''"]}''),
      (''mirror1.yml'', ''name: first''),
      (''mirror2.yml'', ''address: second''),
      (''mirror_schema.json'', ''{"required": ["name", "address"]}'')]\<close>

definition example_open :: "string \<Rightarrow> exn + file_stream" where
  \<open>example_open p =
     (case map_of example_files p of
        None \<Rightarrow> Inl (ArgumentTypeError (''can't open: '' @ p))
      | Some c \<Rightarrow> Inr \<lparr>fs_name = p, fs_content = c\<rparr>)\<close>

definition example_yaml :: "string \<Rightarrow> parsed" where
  \<open>example_yaml c =
     (case map_of
        [(''name: service'', PDict [(''name'', PStr ''service'')]),
         (''title: service'', PDict [(''title'', PStr ''service'')]),
         (''name: first'', PDict [(''name'', PStr ''first'')]),
         (''address: second'', PDict [(''address'', PStr ''second'')])] c of
        None \<Rightarrow> ParserError ''while parsing a flow node: expected the node content''
      | Some v \<Rightarrow> Parsed v)\<close>

definition example_json :: "string \<Rightarrow> parsed" where
  \<open>example_json c =
     (if set c \<subseteq> {CHR ''[''} \<and> 1500 \<le> length c then
        Raises (OtherException ''RecursionError: maximum recursion depth exceeded'')
      else if c = ''{"required": ["'' @ [CHR 0xE9] @ ''"]}'' then
        Raises (ValueError ''UnicodeDecodeError: invalid continuation byte'')
      else case map_of
        [(''{"required": ["name"]}'', PDict [(''required'', PList [PStr ''name''])]),
         (''{"required": 5}'', PDict [(''required'', PInt 5)]),
         (''{"required": ["name", "address"]}'',
            PDict [(''required'', PList [PStr ''name'', PStr ''address''])])] c of
        None \<Rightarrow> ParserError ''Expecting value: line 1 column 14 (char 13)''
      | Some v \<Rightarrow> Parsed v)\<close>

text \<open>\<^verbatim>\<open>repr\<close> of a string without quotes, backslashes or control characters.\<close>

definition example_repr :: "string \<Rightarrow> string" where
  \<open>example_repr s = [CHR 0x27] @ s @ [CHR 0x27]\<close>

fun required_keys :: "pyval list \<Rightarrow> string list option" where
  "required_keys [] = Some []"
| "required_keys (PStr k # vs) = map_option ((#) k) (required_keys vs)"
| "required_keys (v # vs) = None"

definition example_validate :: "pyval \<Rightarrow> pyval \<Rightarrow> validate_outcome" where
  \<open>example_validate inst schema =
     (case schema of
        PDict items \<Rightarrow>
          (case map_of items ''required'' of
             None \<Rightarrow> Valid
           | Some (PList vs) \<Rightarrow>
               (case required_keys vs of
                  None \<Rightarrow> SchemaError ''required: not a list of strings''
                | Some ks \<Rightarrow>
                    (case inst of
                       PDict entries \<Rightarrow>
                         (case filter (\<lambda>k. map_of entries k = None) ks of
                            [] \<Rightarrow> Valid
                          | k # rest \<Rightarrow> ValidationError (k @ '' is a required property''))
                     | _ \<Rightarrow> Valid))
           | Some _ \<Rightarrow> SchemaError ''required: not a list of strings'')
      | _ \<Rightarrow> SchemaError ''the schema is not a mapping'')\<close>

definition example_clock :: "nat \<Rightarrow> string" where
  "example_clock n = ''2024-01-01 00:00:0'' @ (if n = 0 then ''0'' else ''1'') @ '',000''"

definition example_env :: env where
  "example_env =
     \<lparr>file_open = example_open, yaml_safe_load = example_yaml, json_load = example_json,
      py_repr = example_repr, jsonschema_validate = example_validate, clock = example_clock\<rparr>"

section \<open>Properties\<close>

subsection \<open>Unfolding and the three shapes of a run of main\<close>

lemmas example_defs =
  example_env_def example_open_def example_files_def example_yaml_def example_json_def
  example_validate_def example_clock_def example_repr_def

lemmas parse_defs =
  parse_args_def default_namespace_def check_required_def get_value_def YamlFileType_def
  JsonFileType_def

lemmas main_defs =
  main_def config_validation_def call_validate_def init_state_def logger_info_def
  logger_error_def emit_def

text \<open>
  Every iteration of the loop asks the validator the question \<^verbatim>\<open>main\<close> asked before the
  loop, so the loop has one of three shapes, by the answer to that question.
\<close>

lemma mirror_loop_Valid:
  assumes "jsonschema_validate e (config_data (service_config a))
             (service_config_json_schema a) = Valid"
  shows "mirror_loop e a ms (ec, st) =
     Inr (ec, st\<lparr>validated := validated st @
        replicate (length ms) (config_data (service_config a), service_config_json_schema a)\<rparr>)"
  using assms
  by (induction ms arbitrary: st)
     (simp_all add: config_validation_def call_validate_def replicate_append_same)

lemma mirror_loop_ValidationError:
  assumes "jsonschema_validate e (config_data (service_config a))
             (service_config_json_schema a) = ValidationError err"
  shows "mirror_loop e a ms (ec, st) =
     Inr (if ms = [] then ec else 1,
          st\<lparr>log := log st @ mirror_errors e err (length (log st)) ms,
             validated := validated st @
               replicate (length ms)
                 (config_data (service_config a), service_config_json_schema a)\<rparr>)"
  using assms
  by (induction ms arbitrary: st ec)
     (simp_all add: config_validation_def call_validate_def replicate_append_same
        logger_error_def emit_def)

lemma main_Valid:
  assumes "jsonschema_validate e (config_data (service_config a))
             (service_config_json_schema a) = Valid"
  shows "main e a =
     (SystemExit 0,
      \<lparr>log = [\<lparr>asctime = clock e 0, name = ''__main__'', levelname = INFO,
                message = ''All configs are valid''\<rparr>],
       validated = replicate (Suc (length (mirror_configs a)))
          (config_data (service_config a), service_config_json_schema a)\<rparr>)"
  using assms
  by (simp add: main_def mirror_loop_Valid config_validation_def call_validate_def
      init_state_def logger_info_def emit_def)

lemma main_ValidationError:
  assumes "jsonschema_validate e (config_data (service_config a))
             (service_config_json_schema a) = ValidationError err"
  shows \<open>main e a =
     (SystemExit 1,
      \<lparr>log = [\<lparr>asctime = clock e 0, name = ''__main__'', levelname = ERROR,
                message = ''Main config "'' @ config_path (service_config a) @
                   ''" is invalid because "'' @ err @ ''"''\<rparr>],
       validated = [(config_data (service_config a), service_config_json_schema a)]\<rparr>)\<close>
  using assms
  by (simp add: main_def config_validation_def call_validate_def
      init_state_def logger_error_def emit_def)

lemma main_SchemaError:
  assumes "jsonschema_validate e (config_data (service_config a))
             (service_config_json_schema a) = SchemaError x"
  shows \<open>main e a =
     (Uncaught x,
      \<lparr>log = [],
       validated = [(config_data (service_config a), service_config_json_schema a)]\<rparr>)\<close>
  using assms
  by (simp add: main_def config_validation_def call_validate_def init_state_def)

lemma script_parsed: "parse_args e argv = Inr a \<Longrightarrow> script e argv = main e a"
  by (simp add: script_def)

subsection \<open>What the mirror loop validates\<close>

text \<open>
  C1. The claim: for every mirror config the runner validates that mirror's own data,
  against the mirror schema when one is given and against the service schema otherwise.
  The run below has a valid service config, the schema \<^verbatim>\<open>mirror_schema.json\<close> and the mirror
  \<^verbatim>\<open>mirror2.yml\<close>, whose data violates that schema. The two calls of the validator are
  both on the data of the service config and the service schema: the mirror's data and the
  mirror schema never reach it, and the run ends with status 0 and the success line.
\<close>

theorem mirror_data_never_validated:
  \<open>script example_env
      [SC ''config.yml'', SS ''schema.json'', MC [''mirror2.yml''], MS ''mirror_schema.json''] =
     (SystemExit 0,
      \<lparr>log = [\<lparr>asctime = ''2024-01-01 00:00:00,000'', name = ''__main__'', levelname = INFO,
                message = ''All configs are valid''\<rparr>],
       validated =
         [(PDict [(''name'', PStr ''service'')], PDict [(''required'', PList [PStr ''name''])]),
          (PDict [(''name'', PStr ''service'')], PDict [(''required'', PList [PStr ''name''])])]\<rparr>)
   \<and> YamlFileType example_env ''mirror2.yml'' =
       Inr \<lparr>config_path = ''mirror2.yml'', config_data = PDict [(''address'', PStr ''second'')]\<rparr>
   \<and> JsonFileType example_env ''mirror_schema.json'' =
       Inr (PDict [(''required'', PList [PStr ''name'', PStr ''address''])])
   \<and> example_validate (PDict [(''address'', PStr ''second'')])
         (PDict [(''required'', PList [PStr ''name'', PStr ''address''])]) =
       ValidationError ''name is a required property''\<close>
  by (simp add: script_def parse_defs main_defs example_defs)

text \<open>
  C2. The claim: with a valid service config and two mirror configs of which one violates
  the schema, the process exits with 1 and logs one error line naming the invalid mirror.
  In the run below \<^verbatim>\<open>mirror1.yml\<close> conforms to the service schema and \<^verbatim>\<open>mirror2.yml\<close> does
  not. The process exits with 0, logs no error line and logs the success line; the loop
  runs twice, both times on the data of the service config.
\<close>

theorem invalid_mirror_of_two_not_reported:
  \<open>script example_env
      [SC ''config.yml'', SS ''schema.json'', MC [''mirror1.yml'', ''mirror2.yml'']] =
     (SystemExit 0,
      \<lparr>log = [\<lparr>asctime = ''2024-01-01 00:00:00,000'', name = ''__main__'', levelname = INFO,
                message = ''All configs are valid''\<rparr>],
       validated =
         [(PDict [(''name'', PStr ''service'')], PDict [(''required'', PList [PStr ''name''])]),
          (PDict [(''name'', PStr ''service'')], PDict [(''required'', PList [PStr ''name''])]),
          (PDict [(''name'', PStr ''service'')], PDict [(''required'', PList [PStr ''name''])])]\<rparr>)
   \<and> example_validate (PDict [(''name'', PStr ''first'')])
         (PDict [(''required'', PList [PStr ''name''])]) = Valid
   \<and> example_validate (PDict [(''address'', PStr ''second'')])
         (PDict [(''required'', PList [PStr ''name''])]) =
       ValidationError ''name is a required property''\<close>
  by (simp add: script_def parse_defs main_defs example_defs)

subsection \<open>The exit code\<close>

text \<open>
  C3. In every run whose input files all parse, so that \<^verbatim>\<open>parse_args\<close> returns the
  namespace, the exit code of the process is 0 if every validation the run performed
  succeeded and 1 if one of them failed. A validator call that raises something else than
  \<^verbatim>\<open>ValidationError\<close> counts as failed: the exception is not caught and the interpreter
  ends with status 1.
\<close>

theorem exit_code_reflects_validations:
  assumes "parse_args e argv = Inr a"
  shows "exit_status (fst (script e argv)) =
         (if no_validation_failure e (snd (script e argv)) then 0 else 1)"
proof (cases "jsonschema_validate e (config_data (service_config a))
                (service_config_json_schema a)")
  case Valid
  then show ?thesis
    by (simp add: script_parsed [OF assms] main_Valid no_validation_failure_def list_all_iff)
next
  case (ValidationError err)
  then show ?thesis
    by (simp add: script_parsed [OF assms] main_ValidationError no_validation_failure_def)
next
  case (SchemaError x)
  then show ?thesis
    by (simp add: script_parsed [OF assms] main_SchemaError no_validation_failure_def)
qed

theorem exit_code_reflects_validations_witness:
  \<open>parse_args example_env [SC ''unnamed.yml'', SS ''schema.json'', MC [''mirror1.yml'']] =
     Inr \<lparr>service_config =
            \<lparr>config_path = ''unnamed.yml'', config_data = PDict [(''title'', PStr ''service'')]\<rparr>,
          service_config_json_schema = PDict [(''required'', PList [PStr ''name''])],
          mirror_configs =
            [\<lparr>config_path = ''mirror1.yml'', config_data = PDict [(''name'', PStr ''first'')]\<rparr>],
          mirror_config_json_schema = PNone\<rparr>
   \<and> \<not> no_validation_failure example_env
         (snd (script example_env [SC ''unnamed.yml'', SS ''schema.json'', MC [''mirror1.yml'']]))
   \<and> exit_status
         (fst (script example_env [SC ''unnamed.yml'', SS ''schema.json'', MC [''mirror1.yml'']])) = 1\<close>
proof -
  have p: \<open>parse_args example_env [SC ''unnamed.yml'', SS ''schema.json'', MC [''mirror1.yml'']] =
     Inr \<lparr>service_config =
            \<lparr>config_path = ''unnamed.yml'', config_data = PDict [(''title'', PStr ''service'')]\<rparr>,
          service_config_json_schema = PDict [(''required'', PList [PStr ''name''])],
          mirror_configs =
            [\<lparr>config_path = ''mirror1.yml'', config_data = PDict [(''name'', PStr ''first'')]\<rparr>],
          mirror_config_json_schema = PNone\<rparr>\<close>
    by (simp add: parse_defs example_defs)
  have f: \<open>\<not> no_validation_failure example_env
         (snd (script example_env [SC ''unnamed.yml'', SS ''schema.json'', MC [''mirror1.yml'']]))\<close>
    by (simp add: no_validation_failure_def script_def parse_defs main_defs example_defs)
  show ?thesis
    using p f exit_code_reflects_validations [OF p] by simp
qed

text \<open>
  C10. In every run whose input files all parse and whose service config conforms to the
  service schema, the process exits with 0 and logs the success line and nothing else,
  whatever the mirror configs contain: the run validates the data of the service config
  against the service schema once before the loop and once more in each iteration.
\<close>

theorem valid_service_config_exits_0:
  assumes "parse_args e argv = Inr a"
    and "jsonschema_validate e (config_data (service_config a))
           (service_config_json_schema a) = Valid"
  shows "script e argv =
     (SystemExit 0,
      \<lparr>log = [\<lparr>asctime = clock e 0, name = ''__main__'', levelname = INFO,
                message = ''All configs are valid''\<rparr>],
       validated = replicate (Suc (length (mirror_configs a)))
          (config_data (service_config a), service_config_json_schema a)\<rparr>)"
  using assms by (simp add: script_parsed main_Valid)

theorem valid_service_config_exits_0_witness:
  \<open>parse_args example_env [SS ''schema.json'', MC [''mirror2.yml''], SC ''config.yml''] =
     Inr \<lparr>service_config =
            \<lparr>config_path = ''config.yml'', config_data = PDict [(''name'', PStr ''service'')]\<rparr>,
          service_config_json_schema = PDict [(''required'', PList [PStr ''name''])],
          mirror_configs =
            [\<lparr>config_path = ''mirror2.yml'',
              config_data = PDict [(''address'', PStr ''second'')]\<rparr>],
          mirror_config_json_schema = PNone\<rparr>
   \<and> example_validate (PDict [(''name'', PStr ''service'')])
         (PDict [(''required'', PList [PStr ''name''])]) = Valid
   \<and> script example_env [SS ''schema.json'', MC [''mirror2.yml''], SC ''config.yml''] =
     (SystemExit 0,
      \<lparr>log = [\<lparr>asctime = ''2024-01-01 00:00:00,000'', name = ''__main__'', levelname = INFO,
                message = ''All configs are valid''\<rparr>],
       validated =
         [(PDict [(''name'', PStr ''service'')], PDict [(''required'', PList [PStr ''name''])]),
          (PDict [(''name'', PStr ''service'')], PDict [(''required'', PList [PStr ''name''])])]\<rparr>)\<close>
proof -
  have p: \<open>parse_args example_env [SS ''schema.json'', MC [''mirror2.yml''], SC ''config.yml''] =
     Inr \<lparr>service_config =
            \<lparr>config_path = ''config.yml'', config_data = PDict [(''name'', PStr ''service'')]\<rparr>,
          service_config_json_schema = PDict [(''required'', PList [PStr ''name''])],
          mirror_configs =
            [\<lparr>config_path = ''mirror2.yml'',
              config_data = PDict [(''address'', PStr ''second'')]\<rparr>],
          mirror_config_json_schema = PNone\<rparr>\<close>
    by (simp add: parse_defs example_defs)
  have v: \<open>example_validate (PDict [(''name'', PStr ''service'')])
         (PDict [(''required'', PList [PStr ''name''])]) = Valid\<close>
    by (simp add: example_validate_def)
  have c: \<open>example_clock 0 = ''2024-01-01 00:00:00,000''\<close>
    by (simp add: example_clock_def)
  show ?thesis
    using p v c valid_service_config_exits_0 [OF p]
    by (simp add: example_env_def numeral_2_eq_2)
qed

subsection \<open>A validation that fails\<close>

text \<open>
  C4. The claim: after any single config, service or mirror, fails validation, the runner
  goes on to check all remaining configs and only aggregates the failure into the exit
  status. The run below has a service config that violates the schema and two mirror
  configs: it makes one call of the validator, logs the error of the main config and
  exits with 1. No mirror config is checked.
\<close>

theorem service_failure_skips_mirrors:
  \<open>script example_env
      [SC ''unnamed.yml'', SS ''schema.json'', MC [''mirror1.yml'', ''mirror2.yml'']] =
     (SystemExit 1,
      \<lparr>log = [\<lparr>asctime = ''2024-01-01 00:00:00,000'', name = ''__main__'', levelname = ERROR,
                message = ''Main config "unnamed.yml" is invalid because '' @
                          ''"name is a required property"''\<rparr>],
       validated =
         [(PDict [(''title'', PStr ''service'')], PDict [(''required'', PList [PStr ''name''])])]\<rparr>)\<close>
  by (simp add: script_def parse_defs main_defs example_defs)

text \<open>
  C4, as the code has it. A service config that fails validation ends the run at once:
  one call of the validator, one error line, \<^verbatim>\<open>exit(1)\<close>. The loop over the mirror configs
  has no early exit: started in any state with any exit code, an iteration whose validation
  fails logs one error line with the path of its mirror config and sets the exit code to 1,
  and the loop goes on through every remaining mirror config.
\<close>

theorem validation_failure_propagation:
  assumes "jsonschema_validate e (config_data (service_config a))
             (service_config_json_schema a) = ValidationError err"
  shows \<open>main e a =
     (SystemExit 1,
      \<lparr>log = [\<lparr>asctime = clock e 0, name = ''__main__'', levelname = ERROR,
                message = ''Main config "'' @ config_path (service_config a) @
                   ''" is invalid because "'' @ err @ ''"''\<rparr>],
       validated = [(config_data (service_config a), service_config_json_schema a)]\<rparr>)
   \<and> mirror_loop e a ms (ec, st) =
     Inr (if ms = [] then ec else 1,
          st\<lparr>log := log st @ mirror_errors e err (length (log st)) ms,
             validated := validated st @
               replicate (length ms)
                 (config_data (service_config a), service_config_json_schema a)\<rparr>)\<close>
  using assms main_ValidationError mirror_loop_ValidationError by blast

theorem validation_failure_propagation_witness:
  \<open>example_validate (PDict [(''title'', PStr ''service'')])
      (PDict [(''required'', PList [PStr ''name''])]) =
     ValidationError ''name is a required property''
   \<and> fst (main example_env
        \<lparr>service_config =
            \<lparr>config_path = ''unnamed.yml'', config_data = PDict [(''title'', PStr ''service'')]\<rparr>,
          service_config_json_schema = PDict [(''required'', PList [PStr ''name''])],
          mirror_configs = [],
          mirror_config_json_schema = PNone\<rparr>) = SystemExit 1
   \<and> mirror_loop example_env
        \<lparr>service_config =
            \<lparr>config_path = ''unnamed.yml'', config_data = PDict [(''title'', PStr ''service'')]\<rparr>,
          service_config_json_schema = PDict [(''required'', PList [PStr ''name''])],
          mirror_configs = [],
          mirror_config_json_schema = PNone\<rparr>
        [\<lparr>config_path = ''mirror1.yml'', config_data = PDict [(''name'', PStr ''first'')]\<rparr>,
         \<lparr>config_path = ''mirror2.yml'', config_data = PDict [(''address'', PStr ''second'')]\<rparr>]
        (0, init_state) =
      Inr (1,
        \<lparr>log =
           [\<lparr>asctime = ''2024-01-01 00:00:00,000'', name = ''__main__'', levelname = ERROR,
              message = ''The mirror config "mirror1.yml" is invalid because '' @
                        ''"name is a required property"''\<rparr>,
            \<lparr>asctime = ''2024-01-01 00:00:01,000'', name = ''__main__'', levelname = ERROR,
              message = ''The mirror config "mirror2.yml" is invalid because '' @
                        ''"name is a required property"''\<rparr>],
         validated =
           [(PDict [(''title'', PStr ''service'')], PDict [(''required'', PList [PStr ''name''])]),
            (PDict [(''title'', PStr ''service'')], PDict [(''required'', PList [PStr ''name''])])]\<rparr>)\<close>
proof -
  have v: \<open>jsonschema_validate example_env
      (config_data (service_config
        \<lparr>service_config =
            \<lparr>config_path = ''unnamed.yml'', config_data = PDict [(''title'', PStr ''service'')]\<rparr>,
          service_config_json_schema = PDict [(''required'', PList [PStr ''name''])],
          mirror_configs = [],
          mirror_config_json_schema = PNone\<rparr>))
      (service_config_json_schema
        \<lparr>service_config =
            \<lparr>config_path = ''unnamed.yml'', config_data = PDict [(''title'', PStr ''service'')]\<rparr>,
          service_config_json_schema = PDict [(''required'', PList [PStr ''name''])],
          mirror_configs = [],
          mirror_config_json_schema = PNone\<rparr>) =
     ValidationError ''name is a required property''\<close>
    by (simp add: example_env_def example_validate_def)
  show ?thesis
    using v validation_failure_propagation [OF v, of
        "[\<lparr>config_path = ''mirror1.yml'', config_data = PDict [(''name'', PStr ''first'')]\<rparr>,
         \<lparr>config_path = ''mirror2.yml'', config_data = PDict [(''address'', PStr ''second'')]\<rparr>]"
        0 init_state]
    by (simp add: example_env_def example_clock_def init_state_def)
qed

text \<open>
  C5. The claim: for every parsed document and schema \<^verbatim>\<open>config_validation\<close> returns
  \<^verbatim>\<open>(True, None)\<close> or \<^verbatim>\<open>(False, description)\<close> and never raises. The file
  \<^verbatim>\<open>invalid_schema.json\<close> parses, to a document that is not a valid schema. On it the
  validator raises an exception that is not a \<^verbatim>\<open>ValidationError\<close>; \<^verbatim>\<open>config_validation\<close>
  does not catch it, and it ends the run.
\<close>

theorem schema_error_escapes_config_validation:
  \<open>JsonFileType example_env ''invalid_schema.json'' = Inr (PDict [(''required'', PInt 5)])
   \<and> config_validation example_env (PDict [(''name'', PStr ''service'')])
       (PDict [(''required'', PInt 5)]) = Inl ''required: not a list of strings''
   \<and> fst (script example_env [SC ''config.yml'', SS ''invalid_schema.json'']) =
       Uncaught ''required: not a list of strings''\<close>
  by (simp add: script_def parse_defs main_defs example_defs)

text \<open>
  C5, as the code has it. \<^verbatim>\<open>config_validation\<close> returns \<^verbatim>\<open>(True, None)\<close> exactly when the
  validator returns; when the validator raises \<^verbatim>\<open>ValidationError\<close> it returns \<^verbatim>\<open>False\<close>
  with \<^verbatim>\<open>str(err)\<close> and does not raise; any other exception of the validator leaves
  \<^verbatim>\<open>config_validation\<close>.
\<close>

theorem config_validation_outcomes:
  "(config_validation e d s = Inr (True, None) \<longleftrightarrow> jsonschema_validate e d s = Valid)
   \<and> (\<forall>err. jsonschema_validate e d s = ValidationError err \<longrightarrow>
          config_validation e d s = Inr (False, Some err))
   \<and> (\<forall>x. jsonschema_validate e d s = SchemaError x \<longrightarrow> config_validation e d s = Inl x)"
  by (simp add: config_validation_def split: validate_outcome.splits)

theorem config_validation_outcomes_witness:
  \<open>example_validate (PDict [(''title'', PStr ''service'')])
      (PDict [(''required'', PList [PStr ''name''])]) =
     ValidationError ''name is a required property''
   \<and> config_validation example_env (PDict [(''title'', PStr ''service'')])
      (PDict [(''required'', PList [PStr ''name''])]) =
     Inr (False, Some ''name is a required property'')\<close>
proof -
  have v: \<open>jsonschema_validate example_env (PDict [(''title'', PStr ''service'')])
      (PDict [(''required'', PList [PStr ''name''])]) =
     ValidationError ''name is a required property''\<close>
    by (simp add: example_env_def example_validate_def)
  show ?thesis
    using v config_validation_outcomes [of example_env "PDict [(''title'', PStr ''service'')]"
        "PDict [(''required'', PList [PStr ''name''])]"]
    by (simp add: example_env_def)
qed

subsection \<open>Malformed input files\<close>

lemma parse_loop_append:
  "parse_loop e (xs @ ys) ns =
     (case parse_loop e xs ns of Inl out \<Rightarrow> Inl out | Inr ns' \<Rightarrow> parse_loop e ys ns')"
  by (induction xs arbitrary: ns) (simp_all split: sum.splits)

lemma YamlFileType_malformed:
  assumes "file_open e p = Inr \<lparr>fs_name = p, fs_content = c\<rparr>"
    and "yaml_safe_load e c = ParserError err"
  shows \<open>YamlFileType e p =
     Inl (ArgumentTypeError
           (''The YAML file by path "'' @ p @ ''" is invalid because "'' @ err @ ''"''))\<close>
  using assms by (simp add: YamlFileType_def)

lemma JsonFileType_malformed:
  assumes "file_open e p = Inr \<lparr>fs_name = p, fs_content = c\<rparr>"
    and "json_load e c = ParserError err"
  shows \<open>JsonFileType e p =
     Inl (ArgumentTypeError
           (''The JSON file by path "'' @ p @ ''" is invalid because "'' @ err @ ''"''))\<close>
  using assms by (simp add: JsonFileType_def)

lemma load_all_first_failure:
  assumes "load_all e oks = Inr cs"
    and "get_value e ''-mc/--mirror-configs'' ''YamlFileType('r')'' (YamlFileType e) p = Inl out"
  shows "load_all e (oks @ p # rest) = Inl out"
  using assms by (induction oks arbitrary: cs) (auto split: sum.splits)

lemma script_abort:
  assumes "parse_loop e pre default_namespace = Inr ns" and "take_action e a ns = Inl out"
  shows "script e (pre @ a # post) = (out, init_state)"
  using assms by (simp add: script_def parse_args_def parse_loop_append)

text \<open>A run that ends while the arguments are parsed ends in one of two ways.\<close>

lemma get_value_failure:
  assumes "get_value e n t f s = Inl out"
  shows "\<exists>x. out = ArgumentError x \<or> out = Uncaught x"
  using assms by (auto simp: get_value_def split: sum.splits exn.splits)

lemma load_all_failure:
  assumes "load_all e ss = Inl out"
  shows "\<exists>x. out = ArgumentError x \<or> out = Uncaught x"
  using assms
proof (induction ss)
  case Nil
  then show ?case by simp
next
  case (Cons s ss)
  show ?case
  proof (cases "get_value e ''-mc/--mirror-configs'' ''YamlFileType('r')'' (YamlFileType e) s")
    case (Inl o1)
    with Cons.prems have "out = o1" by simp
    with Inl get_value_failure show ?thesis by blast
  next
    case (Inr c)
    with Cons show ?thesis by (auto split: sum.splits)
  qed
qed

lemma take_action_failure:
  assumes "take_action e a ns = Inl out"
  shows "\<exists>x. out = ArgumentError x \<or> out = Uncaught x"
proof (cases a)
  case (SC s)
  with assms show ?thesis by (auto split: sum.splits dest: get_value_failure)
next
  case (SS s)
  with assms show ?thesis by (auto split: sum.splits dest: get_value_failure)
next
  case (MC ss)
  with assms show ?thesis by (auto split: sum.splits if_splits dest: load_all_failure)
next
  case (MS s)
  with assms show ?thesis by (auto split: sum.splits dest: get_value_failure)
qed

lemma parse_loop_failure:
  assumes "parse_loop e argv ns = Inl out"
  shows "\<exists>x. out = ArgumentError x \<or> out = Uncaught x"
  using assms
proof (induction argv arbitrary: ns)
  case Nil
  then show ?case by simp
next
  case (Cons a argv)
  show ?case
  proof (cases "take_action e a ns")
    case (Inl o1)
    with Cons.prems have "out = o1" by simp
    with Inl take_action_failure show ?thesis by blast
  next
    case (Inr ns')
    with Cons show ?thesis by simp
  qed
qed

text \<open>The parse loop comes to its end only if every file loaded.\<close>

lemma get_value_loads:
  assumes "get_value e n t f s = Inr r"
  shows "\<not> isl (f s)"
  using assms by (auto simp: get_value_def split: sum.splits exn.splits)

lemma load_all_loads:
  assumes "load_all e ss = Inr cs"
  shows "list_all (\<lambda>s. \<not> isl (YamlFileType e s)) ss"
  using assms
  by (induction ss arbitrary: cs) (auto split: sum.splits dest: get_value_loads)

lemma take_action_loads:
  assumes "take_action e a ns = Inr ns'"
  shows "arg_loads e a"
proof (cases a)
  case (SC s)
  with assms show ?thesis by (auto split: sum.splits dest: get_value_loads)
next
  case (SS s)
  with assms show ?thesis by (auto split: sum.splits dest: get_value_loads)
next
  case (MC ss)
  with assms show ?thesis by (auto split: sum.splits if_splits dest: load_all_loads)
next
  case (MS s)
  with assms show ?thesis by (auto split: sum.splits dest: get_value_loads)
qed

lemma parse_loop_loads:
  assumes "parse_loop e argv ns = Inr ns'"
  shows "list_all (arg_loads e) argv"
  using assms
  by (induction argv arbitrary: ns) (auto split: sum.splits dest: take_action_loads)

lemma unloadable_file_aborts:
  assumes "b \<in> set argv" and "\<not> arg_loads e b"
  shows "\<exists>out. script e argv = (out, init_state) \<and> (\<exists>x. out = ArgumentError x \<or> out = Uncaught x)"
proof (cases "parse_loop e argv default_namespace")
  case (Inl out)
  then have "script e argv = (out, init_state)"
    by (simp add: script_def parse_args_def)
  with parse_loop_failure [OF Inl] show ?thesis by blast
next
  case (Inr ns)
  from parse_loop_loads [OF Inr] assms have False
    by (simp add: list_all_iff)
  then show ?thesis ..
qed

text \<open>The claim in the case where the parser of the file raises its own error.\<close>

lemma first_malformed_file_aborts:
  assumes "parse_loop e pre default_namespace = Inr ns"
    and "file_open e p = Inr \<lparr>fs_name = p, fs_content = c\<rparr>"
    and "load_all e oks = Inr cs"
    and "(a = SC p \<or> a = MC (oks @ p # rest)) \<and> yaml_safe_load e c = ParserError err
         \<or> (a = SS p \<or> a = MS p) \<and> json_load e c = ParserError err"
  shows "\<exists>msg. script e (pre @ a # post) = (ArgumentError msg, init_state)
           \<and> sublist p msg \<and> sublist err msg"
proof -
  let ?y = \<open>''The YAML file by path "'' @ p @ ''" is invalid because "'' @ err @ ''"''\<close>
  let ?j = \<open>''The JSON file by path "'' @ p @ ''" is invalid because "'' @ err @ ''"''\<close>
  have sub: "sublist p (f @ x @ p @ y @ err @ z) \<and> sublist err (f @ x @ p @ y @ err @ z)"
    for f x y z :: string
  proof
    show "sublist p (f @ x @ p @ y @ err @ z)"
      using sublist_appendI [of p "f @ x" "y @ err @ z"] by simp
    show "sublist err (f @ x @ p @ y @ err @ z)"
      using sublist_appendI [of err "f @ x @ p @ y" z] by simp
  qed
  from assms(4) consider
      (sc) "a = SC p" "yaml_safe_load e c = ParserError err"
    | (mc) "a = MC (oks @ p # rest)" "yaml_safe_load e c = ParserError err"
    | (ss) "a = SS p" "json_load e c = ParserError err"
    | (ms) "a = MS p" "json_load e c = ParserError err"
    by blast
  then show ?thesis
  proof cases
    case sc
    have "take_action e a ns =
        Inl (ArgumentError (''argument -sc/--service-config: '' @ ?y))"
      using sc YamlFileType_malformed [OF assms(2) sc(2)] by (simp add: get_value_def)
    from script_abort [OF assms(1) this] sub show ?thesis by blast
  next
    case mc
    have "get_value e ''-mc/--mirror-configs'' ''YamlFileType('r')'' (YamlFileType e) p =
        Inl (ArgumentError (''argument -mc/--mirror-configs: '' @ ?y))"
      using YamlFileType_malformed [OF assms(2) mc(2)] by (simp add: get_value_def)
    from load_all_first_failure [OF assms(3) this]
    have "take_action e a ns =
        Inl (ArgumentError (''argument -mc/--mirror-configs: '' @ ?y))"
      using mc by simp
    from script_abort [OF assms(1) this] sub show ?thesis by blast
  next
    case ss
    have "take_action e a ns =
        Inl (ArgumentError (''argument -ss/--service-config-json-schema: '' @ ?j))"
      using ss JsonFileType_malformed [OF assms(2) ss(2)] by (simp add: get_value_def)
    from script_abort [OF assms(1) this] sub show ?thesis by blast
  next
    case ms
    have "take_action e a ns =
        Inl (ArgumentError (''argument -ms/--mirror-config-json-schema: '' @ ?j))"
      using ms JsonFileType_malformed [OF assms(2) ms(2)] by (simp add: get_value_def)
    from script_abort [OF assms(1) this] sub show ?thesis by blast
  qed
qed

lemma replicate_brackets_deep:
  "set (replicate 1500 (CHR ''['')) \<subseteq> {CHR ''[''} \<and> 1500 \<le> length (replicate 1500 (CHR ''[''))"
  by simp

text \<open>
  C6. The claim: for every input file whose content is malformed YAML or JSON the process
  ends in argument parsing with an argument-type error whose message includes the path of
  the file and the error of the parser. Three runs where it does not. With two malformed
  files the error names the first, \<^verbatim>\<open>broken.yml\<close>, and the second, \<^verbatim>\<open>broken.json\<close>, is never
  read. On \<^verbatim>\<open>deep.json\<close>, 1500 opening brackets, \<^verbatim>\<open>json.load\<close> raises \<^verbatim>\<open>RecursionError\<close>,
  which the loader does not catch and argparse does not either: the process ends with a
  traceback and status 1. On \<^verbatim>\<open>latin1.json\<close>, whose bytes are not UTF-8, \<^verbatim>\<open>json.load\<close>
  raises \<^verbatim>\<open>UnicodeDecodeError\<close>, a \<^verbatim>\<open>ValueError\<close>: argparse reports an invalid value, and
  the message has no text of the parser.
\<close>

theorem malformed_file_not_always_reported:
  \<open>script example_env [SC ''broken.yml'', SS ''broken.json''] =
     (ArgumentError
        (''argument -sc/--service-config: The YAML file by path "broken.yml" '' @
         ''is invalid because "while parsing a flow node: expected the node content"''),
      init_state)
   \<and> JsonFileType example_env ''broken.json'' =
       Inl (ArgumentTypeError
             (''The JSON file by path "broken.json" is invalid because '' @
              ''"Expecting value: line 1 column 14 (char 13)"''))
   \<and> script example_env [SC ''config.yml'', SS ''deep.json''] =
     (Uncaught ''RecursionError: maximum recursion depth exceeded'', init_state)
   \<and> exit_status (fst (script example_env [SC ''config.yml'', SS ''deep.json''])) = 1
   \<and> script example_env [SC ''config.yml'', SS ''latin1.json''] =
     (ArgumentError
        (''argument -ss/--service-config-json-schema: invalid JsonFileType('r') value: '' @
         [CHR 0x27] @ ''latin1.json'' @ [CHR 0x27]),
      init_state)\<close>
  using replicate_brackets_deep
  by (simp add: script_def parse_defs main_defs example_defs)

text \<open>
  C6, as the code has it. An input file at the path \<open>p\<close> on whose content \<open>c\<close> the parser
  raises its own error, \<^verbatim>\<open>yaml.YAMLError\<close> where the option takes a config (\<^verbatim>\<open>-sc\<close>, or any
  place of the list of \<^verbatim>\<open>-mc\<close>) and \<^verbatim>\<open>json.JSONDecodeError\<close> where it takes a schema (\<^verbatim>\<open>-ss\<close>,
  \<^verbatim>\<open>-ms\<close>): when argparse comes to the file, the options before it and the mirror configs
  before it in its list having loaded, the process ends in argument parsing with the error
  of the parser of the command line; the message contains the path and the error text of
  the YAML or JSON parser; nothing has been validated and nothing logged. And whenever any
  file named on the command line fails to load, whatever the exception, the process ends
  while the arguments are parsed, with the error of argparse or with an uncaught exception,
  and nothing has been validated and nothing logged.
\<close>

theorem malformed_file_aborts_parsing:
  "(parse_loop e pre default_namespace = Inr ns
      \<and> file_open e p = Inr \<lparr>fs_name = p, fs_content = c\<rparr>
      \<and> load_all e oks = Inr cs
      \<and> ((a = SC p \<or> a = MC (oks @ p # rest)) \<and> yaml_safe_load e c = ParserError err
           \<or> (a = SS p \<or> a = MS p) \<and> json_load e c = ParserError err)
     \<longrightarrow> (\<exists>msg. script e (pre @ a # post) = (ArgumentError msg, init_state)
            \<and> sublist p msg \<and> sublist err msg))
   \<and> (b \<in> set argv \<and> \<not> arg_loads e b
     \<longrightarrow> (\<exists>out. script e argv = (out, init_state)
            \<and> (\<exists>x. out = ArgumentError x \<or> out = Uncaught x)))"
  using first_malformed_file_aborts [where e = e and pre = pre and ns = ns and p = p and c = c
      and oks = oks and cs = cs and a = a and rest = rest and err = err and post = post]
    unloadable_file_aborts [where b = b and argv = argv and e = e]
  by blast

theorem malformed_file_aborts_parsing_witness:
  \<open>parse_loop example_env [SS ''schema.json''] default_namespace =
     Inr \<lparr>ns_service_config = None,
          ns_service_config_json_schema = Some (PDict [(''required'', PList [PStr ''name''])]),
          ns_mirror_configs = [], ns_mirror_config_json_schema = PNone\<rparr>
   \<and> file_open example_env ''broken.yml'' =
       Inr \<lparr>fs_name = ''broken.yml'', fs_content = ''name: [''\<rparr>
   \<and> yaml_safe_load example_env ''name: ['' =
       ParserError ''while parsing a flow node: expected the node content''
   \<and> (\<exists>msg. script example_env
                [SS ''schema.json'', SC ''broken.yml'', MC [''mirror1.yml'']] =
              (ArgumentError msg, init_state)
            \<and> sublist ''broken.yml'' msg
            \<and> sublist ''while parsing a flow node: expected the node content'' msg)
   \<and> \<not> arg_loads example_env (SS ''deep.json'')
   \<and> (\<exists>out. script example_env [SC ''config.yml'', SS ''deep.json''] = (out, init_state)
            \<and> (\<exists>x. out = ArgumentError x \<or> out = Uncaught x))\<close>
proof -
  have h1: \<open>parse_loop example_env [SS ''schema.json''] default_namespace =
     Inr \<lparr>ns_service_config = None,
          ns_service_config_json_schema = Some (PDict [(''required'', PList [PStr ''name''])]),
          ns_mirror_configs = [], ns_mirror_config_json_schema = PNone\<rparr>\<close>
    by (simp add: parse_defs example_defs)
  have h2: \<open>file_open example_env ''broken.yml'' =
       Inr \<lparr>fs_name = ''broken.yml'', fs_content = ''name: [''\<rparr>\<close>
    by (simp add: example_defs)
  have h3: "load_all example_env [] = Inr []"
    by simp
  have y: \<open>yaml_safe_load example_env ''name: ['' =
       ParserError ''while parsing a flow node: expected the node content''\<close>
    by (simp add: example_defs)
  have d: \<open>\<not> arg_loads example_env (SS ''deep.json'')\<close>
    using replicate_brackets_deep by (simp add: JsonFileType_def example_defs)
  have m: \<open>SS ''deep.json'' \<in> set [SC ''config.yml'', SS ''deep.json'']\<close>
    by simp
  show ?thesis
    using h1 h2 h3 y d m
      malformed_file_aborts_parsing [where e = example_env and pre = "[SS ''schema.json'']"
        and ns = "\<lparr>ns_service_config = None,
          ns_service_config_json_schema = Some (PDict [(''required'', PList [PStr ''name''])]),
          ns_mirror_configs = [], ns_mirror_config_json_schema = PNone\<rparr>"
        and p = "''broken.yml''" and c = "''name: [''" and oks = "[]" and cs = "[]"
        and a = "SC ''broken.yml''" and rest = "[]"
        and err = "''while parsing a flow node: expected the node content''"
        and post = "[MC [''mirror1.yml'']]" and b = "SS ''deep.json''"
        and argv = "[SC ''config.yml'', SS ''deep.json'']"]
    by simp
qed

subsection \<open>The success line\<close>

lemma success_lines_init [simp]: "success_lines init_state = 0"
  by (simp add: success_lines_def init_state_def)

text \<open>
  C7. The claim: the process logs exactly one success line if and only if no validation
  failure occurred. In the run below the service config is malformed YAML: the process
  ends in argument parsing, no validation was performed and so none failed, and the log
  has no success line.
\<close>

theorem parse_abort_logs_no_success_line:
  \<open>fst (script example_env [SC ''broken.yml'', SS ''schema.json'']) =
     ArgumentError (''argument -sc/--service-config: The YAML file by path "broken.yml" '' @
       ''is invalid because "while parsing a flow node: expected the node content"'')
   \<and> validated (snd (script example_env [SC ''broken.yml'', SS ''schema.json''])) = []
   \<and> no_validation_failure example_env
         (snd (script example_env [SC ''broken.yml'', SS ''schema.json'']))
   \<and> success_lines (snd (script example_env [SC ''broken.yml'', SS ''schema.json''])) = 0\<close>
  by (simp add: script_def parse_defs main_defs example_defs success_lines_def
      no_validation_failure_def)

text \<open>
  C7, as the code has it. The log of a run has exactly one success line if the arguments
  parse and no validation of the run failed, and no success line otherwise. In particular,
  when the arguments parse, the service config conforms to its schema and there is no
  mirror config, the process exits with 0 and logs exactly one success line.
\<close>

theorem success_line_iff_parsed_and_valid:
  "success_lines (snd (script e argv)) =
     (if \<not> isl (parse_args e argv) \<and> no_validation_failure e (snd (script e argv))
      then 1 else 0)
   \<and> (\<forall>a. parse_args e argv = Inr a \<and> mirror_configs a = [] \<and>
          jsonschema_validate e (config_data (service_config a))
            (service_config_json_schema a) = Valid \<longrightarrow>
        fst (script e argv) = SystemExit 0 \<and> success_lines (snd (script e argv)) = 1)"
proof (cases "parse_args e argv")
  case (Inl msg)
  then show ?thesis by (simp add: script_def)
next
  case (Inr a)
  show ?thesis
  proof (cases "jsonschema_validate e (config_data (service_config a))
                  (service_config_json_schema a)")
    case Valid
    then show ?thesis
      by (simp add: Inr script_parsed [OF Inr] main_Valid no_validation_failure_def
          success_lines_def list_all_iff)
  next
    case (ValidationError err)
    then show ?thesis
      by (simp add: Inr script_parsed [OF Inr] main_ValidationError no_validation_failure_def
          success_lines_def)
  next
    case (SchemaError x)
    then show ?thesis
      by (simp add: Inr script_parsed [OF Inr] main_SchemaError no_validation_failure_def
          success_lines_def)
  qed
qed

theorem success_line_iff_parsed_and_valid_witness:
  \<open>parse_args example_env [SC ''config.yml'', SS ''schema.json''] =
     Inr \<lparr>service_config =
            \<lparr>config_path = ''config.yml'', config_data = PDict [(''name'', PStr ''service'')]\<rparr>,
          service_config_json_schema = PDict [(''required'', PList [PStr ''name''])],
          mirror_configs = [],
          mirror_config_json_schema = PNone\<rparr>
   \<and> example_validate (PDict [(''name'', PStr ''service'')])
         (PDict [(''required'', PList [PStr ''name''])]) = Valid
   \<and> fst (script example_env [SC ''config.yml'', SS ''schema.json'']) = SystemExit 0
   \<and> success_lines (snd (script example_env [SC ''config.yml'', SS ''schema.json''])) = 1\<close>
proof -
  have p: \<open>parse_args example_env [SC ''config.yml'', SS ''schema.json''] =
     Inr \<lparr>service_config =
            \<lparr>config_path = ''config.yml'', config_data = PDict [(''name'', PStr ''service'')]\<rparr>,
          service_config_json_schema = PDict [(''required'', PList [PStr ''name''])],
          mirror_configs = [],
          mirror_config_json_schema = PNone\<rparr>\<close>
    by (simp add: parse_defs example_defs)
  have v: \<open>example_validate (PDict [(''name'', PStr ''service'')])
         (PDict [(''required'', PList [PStr ''name''])]) = Valid\<close>
    by (simp add: example_validate_def)
  show ?thesis
    using p v success_line_iff_parsed_and_valid
      [of example_env "[SC ''config.yml'', SS ''schema.json'']"]
    by (simp add: example_env_def)
qed

subsection \<open>Two runs on the same files\<close>

text \<open>
  C8. The claim: two runs on the same unchanged input files yield the same exit code and
  the same log content. The two runs below read the same files and differ in the time of
  day only; their log lines differ, since the format of the logger starts every line with
  \<^verbatim>\<open>%(asctime)s\<close>.
\<close>

theorem log_lines_depend_on_clock:
  \<open>map format_record
      (log (snd (script example_env [SC ''config.yml'', SS ''schema.json''])))
     = [''2024-01-01 00:00:00,000 | __main__ | INFO | All configs are valid'']
   \<and> map format_record
      (log (snd (script (example_env\<lparr>clock := \<lambda>n. ''2024-01-02 09:30:00,000''\<rparr>)
         [SC ''config.yml'', SS ''schema.json''])))
     = [''2024-01-02 09:30:00,000 | __main__ | INFO | All configs are valid'']\<close>
  by (simp add: script_def parse_defs main_defs example_defs format_record_def)

lemma YamlFileType_clock [simp]: "YamlFileType (e\<lparr>clock := c\<rparr>) s = YamlFileType e s"
  by (simp add: YamlFileType_def split: sum.splits parsed.splits)

lemma JsonFileType_clock [simp]: "JsonFileType (e\<lparr>clock := c\<rparr>) s = JsonFileType e s"
  by (simp add: JsonFileType_def split: sum.splits parsed.splits)

lemma YamlFileType_clock_fun [simp]: "YamlFileType (e\<lparr>clock := c\<rparr>) = YamlFileType e"
  by (rule ext) simp

lemma JsonFileType_clock_fun [simp]: "JsonFileType (e\<lparr>clock := c\<rparr>) = JsonFileType e"
  by (rule ext) simp

lemma get_value_clock [simp]:
  "get_value (e\<lparr>clock := c\<rparr>) n t f s = get_value e n t f s"
  by (simp add: get_value_def split: sum.splits exn.splits)

lemma load_all_clock [simp]: "load_all (e\<lparr>clock := c\<rparr>) ss = load_all e ss"
  by (induction ss) (simp_all split: sum.splits)

lemma take_action_clock [simp]: "take_action (e\<lparr>clock := c\<rparr>) a ns = take_action e a ns"
  by (cases a) (simp_all split: sum.splits)

lemma parse_loop_clock [simp]: "parse_loop (e\<lparr>clock := c\<rparr>) argv ns = parse_loop e argv ns"
  by (induction argv arbitrary: ns) (simp_all split: sum.splits)

lemma parse_args_clock [simp]: "parse_args (e\<lparr>clock := c\<rparr>) argv = parse_args e argv"
  by (simp add: parse_args_def split: sum.splits)

text \<open>
  C8, as the code has it. Two runs on the same files, parsers and validator that differ in
  the clock only end the same way, make the same calls of the validator and log records
  with the same logger name, level and message in the same order; the \<^verbatim>\<open>asctime\<close> of a
  record is the time of the run.
\<close>

theorem run_independent_of_clock:
  "fst (script (e\<lparr>clock := c\<rparr>) argv) = fst (script e argv)
   \<and> untimed (log (snd (script (e\<lparr>clock := c\<rparr>) argv))) = untimed (log (snd (script e argv)))
   \<and> validated (snd (script (e\<lparr>clock := c\<rparr>) argv)) = validated (snd (script e argv))"
proof (cases "parse_args e argv")
  case (Inl msg)
  then show ?thesis by (simp add: script_def)
next
  case (Inr a)
  then have s: "script (e\<lparr>clock := c\<rparr>) argv = main (e\<lparr>clock := c\<rparr>) a"
    "script e argv = main e a"
    by (simp_all add: script_def)
  show ?thesis
  proof (cases "jsonschema_validate e (config_data (service_config a))
                  (service_config_json_schema a)")
    case Valid
    then show ?thesis by (simp add: s main_Valid untimed_def)
  next
    case (ValidationError err)
    then show ?thesis by (simp add: s main_ValidationError untimed_def)
  next
    case (SchemaError x)
    then show ?thesis by (simp add: s main_SchemaError untimed_def)
  qed
qed

subsection \<open>The option for the mirror schema\<close>

lemma mirror_loop_ignores_mirror_schema:
  "mirror_loop e (a\<lparr>mirror_config_json_schema := x\<rparr>) ms (ec, st) = mirror_loop e a ms (ec, st)"
  by (induction ms arbitrary: ec st) (simp_all add: Let_def split: sum.splits prod.splits)

lemma main_ignores_mirror_schema:
  "main e (a\<lparr>mirror_config_json_schema := x\<rparr>) = main e a"
  by (simp add: main_def mirror_loop_ignores_mirror_schema Let_def
      split: sum.splits prod.splits)

text \<open>What the script does with the namespace that the parse loop leaves.\<close>

lemma finish_ignores_mirror_schema:
  "(case check_required (ns\<lparr>ns_mirror_config_json_schema := x\<rparr>) of
      Inl out \<Rightarrow> (out, init_state) | Inr a \<Rightarrow> main e a) =
   (case check_required ns of
      Inl out \<Rightarrow> (out, init_state) | Inr a \<Rightarrow> main e a)"
proof (cases "ns_service_config ns")
  case None
  then show ?thesis
    by (cases "ns_service_config_json_schema ns") (simp_all add: check_required_def)
next
  case (Some c)
  show ?thesis
  proof (cases "ns_service_config_json_schema ns")
    case None
    then show ?thesis using Some by (simp add: check_required_def)
  next
    case (Some d)
    have "main e
       \<lparr>service_config = c, service_config_json_schema = d,
        mirror_configs = ns_mirror_configs ns, mirror_config_json_schema = x\<rparr> =
      main e
       \<lparr>service_config = c, service_config_json_schema = d,
        mirror_configs = ns_mirror_configs ns,
        mirror_config_json_schema = ns_mirror_config_json_schema ns\<rparr>"
      using main_ignores_mirror_schema
        [where e = e and x = x and a = "\<lparr>service_config = c, service_config_json_schema = d,
        mirror_configs = ns_mirror_configs ns,
        mirror_config_json_schema = ns_mirror_config_json_schema ns\<rparr>"]
      by simp
    then show ?thesis using Some \<open>ns_service_config ns = Some c\<close>
      by (simp add: check_required_def)
  qed
qed

lemma take_action_mirror_schema:
  "take_action e a (ns\<lparr>ns_mirror_config_json_schema := x\<rparr>) =
     (case a of
        MS s \<Rightarrow> take_action e a ns
      | _ \<Rightarrow> (case take_action e a ns of
                Inl msg \<Rightarrow> Inl msg
              | Inr ns' \<Rightarrow> Inr (ns'\<lparr>ns_mirror_config_json_schema := x\<rparr>)))"
  by (cases a) (simp_all split: sum.splits)

lemma run_from_ignores_mirror_schema:
  "(case parse_loop e argv (ns\<lparr>ns_mirror_config_json_schema := x\<rparr>) of
      Inl out \<Rightarrow> (out, init_state)
    | Inr ns' \<Rightarrow> (case check_required ns' of
         Inl out \<Rightarrow> (out, init_state) | Inr a \<Rightarrow> main e a)) =
   (case parse_loop e argv ns of
      Inl out \<Rightarrow> (out, init_state)
    | Inr ns' \<Rightarrow> (case check_required ns' of
         Inl out \<Rightarrow> (out, init_state) | Inr a \<Rightarrow> main e a))"
proof (induction argv arbitrary: ns x)
  case Nil
  show ?case using finish_ignores_mirror_schema [where ns = ns and x = x and e = e] by simp
next
  case (Cons a argv)
  show ?case
  proof (cases a)
    case (MS s)
    then show ?thesis by (simp add: take_action_mirror_schema)
  next
    case (SC s)
    then show ?thesis
      using Cons.IH by (cases "take_action e a ns") (simp_all add: take_action_mirror_schema)
  next
    case (SS s)
    then show ?thesis
      using Cons.IH by (cases "take_action e a ns") (simp_all add: take_action_mirror_schema)
  next
    case (MC ss)
    then show ?thesis
      using Cons.IH by (cases "take_action e a ns") (simp_all add: take_action_mirror_schema)
  qed
qed

lemma script_unfold:
  "script e argv =
    (case parse_loop e argv default_namespace of
      Inl out \<Rightarrow> (out, init_state)
    | Inr ns' \<Rightarrow> (case check_required ns' of
         Inl out \<Rightarrow> (out, init_state) | Inr a \<Rightarrow> main e a))"
  by (simp add: script_def parse_args_def split: sum.splits)

text \<open>
  C9. The option \<^verbatim>\<open>-ms\<close> has no effect: when the file it names loads as JSON, the run with
  the option, at any place of the command line, is the run without it. The exit, the log
  and the calls of the validator are the same.
\<close>

theorem mirror_schema_has_no_effect:
  assumes "JsonFileType e p = Inr d"
  shows "script e (pre @ MS p # post) = script e (pre @ post)"
proof (cases "parse_loop e pre default_namespace")
  case (Inl msg)
  then show ?thesis by (simp add: script_unfold parse_loop_append)
next
  case (Inr ns)
  then show ?thesis
    using assms run_from_ignores_mirror_schema [where e = e and argv = post and ns = ns and x = d]
    by (simp add: script_unfold parse_loop_append get_value_def)
qed

theorem mirror_schema_has_no_effect_witness:
  \<open>JsonFileType example_env ''mirror_schema.json'' =
     Inr (PDict [(''required'', PList [PStr ''name'', PStr ''address''])])
   \<and> script example_env
       [SC ''config.yml'', MS ''mirror_schema.json'', SS ''schema.json'', MC [''mirror2.yml'']] =
     script example_env [SC ''config.yml'', SS ''schema.json'', MC [''mirror2.yml'']]
   \<and> script example_env [SC ''config.yml'', SS ''schema.json'', MC [''mirror2.yml'']] =
     (SystemExit 0,
      \<lparr>log = [\<lparr>asctime = ''2024-01-01 00:00:00,000'', name = ''__main__'', levelname = INFO,
                message = ''All configs are valid''\<rparr>],
       validated =
         [(PDict [(''name'', PStr ''service'')], PDict [(''required'', PList [PStr ''name''])]),
          (PDict [(''name'', PStr ''service'')], PDict [(''required'', PList [PStr ''name''])])]\<rparr>)\<close>
proof -
  have j: \<open>JsonFileType example_env ''mirror_schema.json'' =
     Inr (PDict [(''required'', PList [PStr ''name'', PStr ''address''])])\<close>
    by (simp add: JsonFileType_def example_defs)
  have r: \<open>script example_env [SC ''config.yml'', SS ''schema.json'', MC [''mirror2.yml'']] =
     (SystemExit 0,
      \<lparr>log = [\<lparr>asctime = ''2024-01-01 00:00:00,000'', name = ''__main__'', levelname = INFO,
                message = ''All configs are valid''\<rparr>],
       validated =
         [(PDict [(''name'', PStr ''service'')], PDict [(''required'', PList [PStr ''name''])]),
          (PDict [(''name'', PStr ''service'')], PDict [(''required'', PList [PStr ''name''])])]\<rparr>)\<close>
    by (simp add: script_def parse_defs main_defs example_defs)
  show ?thesis
    using j r mirror_schema_has_no_effect [OF j, of "[SC ''config.yml'']"
        "[SS ''schema.json'', MC [''mirror2.yml'']]"]
    by simp
qed

end
